theory Spec2Isabelle
  imports Complex_Main "HOL-Library.Sublist"
begin

section \<open>Values, dictionaries and exceptions\<close>

text \<open>
  The client of \<^verbatim>\<open>swc_client.py\<close> passes Python values around: query parameters
  are integers, strings or \<^verbatim>\<open>None\<close>; a dictionary keeps its insertion order and has
  distinct keys, so it is an association list. Strings are \<open>char list\<close>.
\<close>

datatype pyval = PNone | PInt int | PStr string

type_synonym params = "(string \<times> pyval) list"

text \<open>A decoded JSON document, as \<^verbatim>\<open>response.json()\<close> returns it.\<close>

datatype json =
    JNull
  | JBool bool
  | JInt int
  | JFloat real
  | JString string
  | JArray "json list"
  | JObject "(string \<times> json) list"

type_synonym kwargs = "(string \<times> json) list"

text \<open>
  The exceptions that can leave a client method. \<open>HTTPStatusError\<close> carries the
  status code and text of its response, \<open>RequestError\<close> its message,
  \<open>ValidationError\<close> the offending field and the type expected there; the other
  constructors carry a description.
\<close>

datatype exn =
    HTTPStatusError int string
  | RequestError string
  | JSONDecodeError
  | TypeError string
  | ValidationError string string
  | KeyError string
  | OtherError string

section \<open>Configuration and construction of the client\<close>

text \<open>
  \<^verbatim>\<open>SWCConfig\<close> is read through its four attributes only; \<^verbatim>\<open>swc_config.py\<close> is not
  among the sources, so the record below holds the attributes \<^verbatim>\<open>__init__\<close> reads, with
  the types the tests give them.
\<close>

record SWCConfig =
  swc_base_url :: string
  swc_backoff :: bool
  swc_backoff_max_time :: int
  swc_bulk_file_format :: string

datatype exn_class = RequestError_class | HTTPStatusError_class

text \<open>The arguments of \<^verbatim>\<open>Retry(...)\<close> at lines 56-59.\<close>

record Retry =
  max_backoff_wait :: int
  retry_on_exceptions :: "exn_class list"

text \<open>
  \<^verbatim>\<open>httpx.Client(base_url=...)\<close> has the default transport; with
  \<^verbatim>\<open>transport=RetryTransport(retry=...)\<close> requests go through the retrying one.
\<close>

datatype transport = DefaultTransport | RetryTransport Retry

record Client =
  client_base_url :: string
  client_transport :: transport

record SWCClient =
  base_url :: string
  backoff :: bool
  backoff_max_time :: int
  bulk_file_format :: string
  BULK_FILE_NAMES :: "(string \<times> string) list"
  http_client :: Client

definition HEALTH_CHECK_ENDPOINT :: string where
  "HEALTH_CHECK_ENDPOINT = ''/''"

definition LIST_LEAGUES_ENDPOINT :: string where
  "LIST_LEAGUES_ENDPOINT = ''/v0/leagues/''"

definition LIST_PLAYERS_ENDPOINT :: string where
  "LIST_PLAYERS_ENDPOINT = ''/v0/players/''"

definition LIST_PERFORMANCES_ENDPOINT :: string where
  "LIST_PERFORMANCES_ENDPOINT = ''/v0/performances/''"

definition LIST_TEAMS_ENDPOINT :: string where
  "LIST_TEAMS_ENDPOINT = ''/v0/teams/''"

definition GET_COUNTS_ENDPOINT :: string where
  "GET_COUNTS_ENDPOINT = ''/v0/counts/''"

definition BULK_FILE_BASE_URL :: string where
  "BULK_FILE_BASE_URL =
     ''https://raw.githubusercontent.com/evrins/hands-on-api-data/main/bulk/''"

text \<open>
  \<^verbatim>\<open>str.lower()\<close> on the code points a \<open>char\<close> can hold (Latin-1): the capital
  letters \<open>A\<close> to \<open>Z\<close> and the accented capitals 192 to 222 other than the
  multiplication sign 215 move up by 32, every other character stays.
\<close>

definition lower_char :: "char \<Rightarrow> char" where
  "lower_char c =
     (let n = (of_char c :: nat)
      in if (65 \<le> n \<and> n \<le> 90) \<or> (192 \<le> n \<and> n \<le> 222 \<and> n \<noteq> 215)
         then char_of (n + 32) else c)"

definition lower :: "string \<Rightarrow> string" where
  "lower s = map lower_char s"

text \<open>The dictionary literal of lines 47-53.\<close>

definition BULK_FILE_NAMES_0 :: "(string \<times> string) list" where
  "BULK_FILE_NAMES_0 =
     [(''players'', ''player_data''),
      (''leagues'', ''league_data''),
      (''performances'', ''performance_data''),
      (''teams'', ''team_data''),
      (''team_players'', ''team_player_data'')]"

text \<open>
  \<^verbatim>\<open>SWCClient.__init__\<close>: the attributes are copied from the configuration, the HTTP
  client is built with or without the retrying transport, the extension is chosen from
  the lower-cased bulk file format and appended to every file name.
\<close>

definition SWCClient_init :: "SWCConfig \<Rightarrow> SWCClient" where
  "SWCClient_init cfg =
     (let transport =
            (if swc_backoff cfg
             then RetryTransport
                    \<lparr>max_backoff_wait = swc_backoff_max_time cfg,
                     retry_on_exceptions = [RequestError_class, HTTPStatusError_class]\<rparr>
             else DefaultTransport);
          ext = (if lower (swc_bulk_file_format cfg) = ''parquet''
                 then ''.parquet'' else ''.csv'')
      in \<lparr>base_url = swc_base_url cfg,
          backoff = swc_backoff cfg,
          backoff_max_time = swc_backoff_max_time cfg,
          bulk_file_format = swc_bulk_file_format cfg,
          BULK_FILE_NAMES = map (\<lambda>(k, v). (k, v @ ext)) BULK_FILE_NAMES_0,
          http_client = \<lparr>client_base_url = swc_base_url cfg,
                         client_transport = transport\<rparr>\<rparr>)"

section \<open>Requests, responses and the world outside\<close>

text \<open>
  What the code reads of an \<^verbatim>\<open>httpx.Response\<close>: the status code, the raw bytes of the
  body, and the value of \<^verbatim>\<open>response.json()\<close>, which is \<open>None\<close> when the body is not
  JSON and the call raises.
\<close>

record Response =
  status_code :: int
  content :: string
  json_body :: "json option"

text \<open>
  A GET as it is handed to httpx. \<open>req_base_url\<close> is the base URL of the
  \<^verbatim>\<open>httpx.Client\<close> the request goes through, \<open>None\<close> for the module-level
  \<^verbatim>\<open>httpx.get\<close>; \<open>req_params\<close> is the value of the \<^verbatim>\<open>params\<close> argument when the
  call is made (\<open>None\<close> for Python's \<^verbatim>\<open>None\<close>); \<open>req_follow_redirects\<close> is
  \<open>True\<close> only where the code passes \<^verbatim>\<open>follow_redirects=True\<close>.
\<close>

record Request =
  req_base_url :: "string option"
  req_url :: string
  req_params :: "params option"
  req_follow_redirects :: bool

type_synonym outcome = "exn + Response"

type_synonym handler = "Request \<Rightarrow> Request list \<Rightarrow> outcome \<times> Request list"

text \<open>
  httpx and httpx_retries are libraries, so their behaviour is a parameter of the model:
  \<open>server n req\<close> is what the \<open>n\<close>-th request put on the wire comes back with (a
  response, or the exception the transport raises), and \<open>retrying r h\<close> is the handler
  \<^verbatim>\<open>RetryTransport(retry=r)\<close> makes of the plain handler \<open>h\<close>, free to call it as
  often as its policy says.
\<close>

record env =
  server :: "nat \<Rightarrow> Request \<Rightarrow> outcome"
  retrying :: "Retry \<Rightarrow> handler \<Rightarrow> handler"

text \<open>
  The state a call can change: the store of dictionary objects (a reference is an index
  into \<open>heap\<close>), the calls made to httpx, and the attempts that went on the wire.
\<close>

record world =
  heap :: "params list"
  calls :: "Request list"
  wire :: "Request list"

definition alloc :: "params \<Rightarrow> world \<Rightarrow> nat \<times> world" where
  "alloc d w = (length (heap w), w\<lparr>heap := heap w @ [d]\<rparr>)"

text \<open>One attempt on the wire.\<close>

definition send :: "env \<Rightarrow> handler" where
  "send e req ws = (server e (length ws) req, ws @ [req])"

text \<open>The handler of a client: the plain one, or the retrying one around it.\<close>

definition Client_send :: "env \<Rightarrow> Client \<Rightarrow> handler" where
  "Client_send e c =
     (case client_transport c of
        DefaultTransport \<Rightarrow> send e
      | RetryTransport r \<Rightarrow> retrying e r (send e))"

text \<open>
  \<^verbatim>\<open>self.http_client.get(endpoint, params=params)\<close>. httpx reads the dictionary it is
  given and builds its own query string; it does not write to it.
\<close>

definition Client_get ::
  "env \<Rightarrow> Client \<Rightarrow> string \<Rightarrow> nat option \<Rightarrow> world \<Rightarrow> outcome \<times> world" where
  "Client_get e c url params w =
     (let req = \<lparr>req_base_url = Some (client_base_url c),
                 req_url = url,
                 req_params = map_option (\<lambda>a. heap w ! a) params,
                 req_follow_redirects = False\<rparr>
      in case Client_send e c req (wire w) of
           (out, ws) \<Rightarrow> (out, w\<lparr>calls := calls w @ [req], wire := ws\<rparr>))"

text \<open>\<^verbatim>\<open>httpx.get(url, follow_redirects=...)\<close>: no client, no custom transport.\<close>

definition httpx_get :: "env \<Rightarrow> string \<Rightarrow> bool \<Rightarrow> world \<Rightarrow> outcome \<times> world" where
  "httpx_get e url follow w =
     (let req = \<lparr>req_base_url = None,
                 req_url = url,
                 req_params = None,
                 req_follow_redirects = follow\<rparr>
      in case send e req (wire w) of
           (out, ws) \<Rightarrow> (out, w\<lparr>calls := calls w @ [req], wire := ws\<rparr>))"

section \<open>The call API operation\<close>

text \<open>\<^verbatim>\<open>response.json()\<close>.\<close>

definition response_json :: "Response \<Rightarrow> exn + json" where
  "response_json r = (case json_body r of None \<Rightarrow> Inl JSONDecodeError | Some j \<Rightarrow> Inr j)"

text \<open>
  \<^verbatim>\<open>call_api\<close>, lines 86-100. \<^verbatim>\<open>if params:\<close> holds for a dictionary that is not empty;
  the comprehension then builds a new dictionary and the local name is bound to it. The
  debug line after the GET formats \<^verbatim>\<open>response.json()\<close>, so a body that is not JSON
  raises there. Both handlers log and re-raise, and any other exception leaves the
  \<^verbatim>\<open>try\<close> as it is: every failure reaches the caller unchanged.
\<close>

definition call_api ::
  "env \<Rightarrow> SWCClient \<Rightarrow> string \<Rightarrow> nat option \<Rightarrow> world \<Rightarrow> outcome \<times> world" where
  "call_api e self endpoint params w =
     (case (case params of
              None \<Rightarrow> (None, w)
            | Some a \<Rightarrow>
                if heap w ! a \<noteq> []
                then (case alloc (filter (\<lambda>(k, v). v \<noteq> PNone) (heap w ! a)) w of
                        (a', w') \<Rightarrow> (Some a', w'))
                else (Some a, w)) of
        (params', w1) \<Rightarrow>
          (case Client_get e (http_client self) endpoint params' w1 of
             (Inl ex, w2) \<Rightarrow> (Inl ex, w2)
           | (Inr response, w2) \<Rightarrow>
               (case response_json response of
                  Inl ex \<Rightarrow> (Inl ex, w2)
                | Inr _ \<Rightarrow> (Inr response, w2))))"

text \<open>\<^verbatim>\<open>get_health_check\<close>.\<close>

definition get_health_check :: "env \<Rightarrow> SWCClient \<Rightarrow> world \<Rightarrow> outcome \<times> world" where
  "get_health_check e self w = call_api e self HEALTH_CHECK_ENDPOINT None w"

section \<open>Building records from JSON\<close>

text \<open>
  \<^verbatim>\<open>Model(**it)\<close>: the value must be a mapping, whose items become the keyword
  arguments of the model class; anything else is a \<^verbatim>\<open>TypeError\<close>. The model classes
  live in \<^verbatim>\<open>schemas.py\<close>, so the operations below take the class as a parameter: a
  function from the keyword arguments to the record or the exception it raises.
\<close>

definition construct :: "(kwargs \<Rightarrow> exn + 'a) \<Rightarrow> json \<Rightarrow> exn + 'a" where
  "construct Model it =
     (case it of
        JObject kw \<Rightarrow> Model kw
      | _ \<Rightarrow> Inl (TypeError ''argument after ** must be a mapping''))"

text \<open>
  What a \<^verbatim>\<open>for\<close> loop sees of a decoded JSON value: the elements of an array, the keys
  of an object, the characters of a string; the other values are not iterable.
\<close>

definition iterate :: "json \<Rightarrow> exn + json list" where
  "iterate j =
     (case j of
        JArray js \<Rightarrow> Inr js
      | JObject kw \<Rightarrow> Inr (map (\<lambda>(k, v). JString k) kw)
      | JString s \<Rightarrow> Inr (map (\<lambda>c. JString [c]) s)
      | _ \<Rightarrow> Inl (TypeError ''object is not iterable''))"

text \<open>A list comprehension: the first element that raises ends it.\<close>

fun collect :: "('a \<Rightarrow> exn + 'b) \<Rightarrow> 'a list \<Rightarrow> exn + 'b list" where
  "collect f [] = Inr []"
| "collect f (x # xs) =
     (case f x of
        Inl ex \<Rightarrow> Inl ex
      | Inr y \<Rightarrow> (case collect f xs of Inl ex \<Rightarrow> Inl ex | Inr ys \<Rightarrow> Inr (y # ys)))"

text \<open>\<^verbatim>\<open>[Model(**it) for it in response.json()]\<close>.\<close>

definition comprehension :: "(kwargs \<Rightarrow> exn + 'a) \<Rightarrow> Response \<Rightarrow> exn + 'a list" where
  "comprehension Model response =
     (case response_json response of
        Inl ex \<Rightarrow> Inl ex
      | Inr j \<Rightarrow>
          (case iterate j of
             Inl ex \<Rightarrow> Inl ex
           | Inr its \<Rightarrow> collect (construct Model) its))"

text \<open>\<^verbatim>\<open>Model(**response.json())\<close>.\<close>

definition single :: "(kwargs \<Rightarrow> exn + 'a) \<Rightarrow> Response \<Rightarrow> exn + 'a" where
  "single Model response =
     (case response_json response of
        Inl ex \<Rightarrow> Inl ex
      | Inr j \<Rightarrow> construct Model j)"

section \<open>The operations of the client\<close>

text \<open>
  A keyword argument the caller leaves out is \<open>None\<close> here and takes the default of the
  signature; one the caller passes is \<open>Some v\<close>, and \<open>v\<close> may be Python's \<^verbatim>\<open>None\<close>.
\<close>

definition arg :: "pyval \<Rightarrow> pyval option \<Rightarrow> pyval" where
  "arg dflt a = (case a of None \<Rightarrow> dflt | Some v \<Rightarrow> v)"

text \<open>
  \<^verbatim>\<open>str(n)\<close> of an integer, for the f-strings that build a detail path: the decimal
  digits, after a minus sign for a negative number. The interpreter's cap on the number
  of digits of such a conversion is left out.
\<close>

definition digit_char :: "nat \<Rightarrow> char" where
  "digit_char d = char_of (48 + d)"

fun str_nat :: "nat \<Rightarrow> string" where
  "str_nat n = (if n < 10 then [digit_char n] else str_nat (n div 10) @ [digit_char (n mod 10)])"

declare str_nat.simps [simp del]

definition str_int :: "int \<Rightarrow> string" where
  "str_int i = (if i < 0 then CHR ''-'' # str_nat (nat (- i)) else str_nat (nat i))"

text \<open>\<^verbatim>\<open>list_leagues\<close>, lines 117-140.\<close>

definition list_leagues ::
  "(kwargs \<Rightarrow> exn + 'a) \<Rightarrow> env \<Rightarrow> SWCClient \<Rightarrow>
   pyval option \<Rightarrow> pyval option \<Rightarrow> pyval option \<Rightarrow> pyval option \<Rightarrow>
   world \<Rightarrow> (exn + 'a list) \<times> world" where
  "list_leagues League e self skip limit min_last_changed_date league_name w =
     (case alloc [(''skip'', arg (PInt 0) skip),
                  (''limit'', arg (PInt 100) limit),
                  (''min_last_changed_date'', arg PNone min_last_changed_date),
                  (''league_name'', arg PNone league_name)] w of
        (params, w1) \<Rightarrow>
          (case call_api e self LIST_LEAGUES_ENDPOINT (Some params) w1 of
             (Inl ex, w2) \<Rightarrow> (Inl ex, w2)
           | (Inr response, w2) \<Rightarrow> (comprehension League response, w2)))"

text \<open>\<^verbatim>\<open>get_league_by_id\<close>, lines 142-157.\<close>

definition get_league_by_id ::
  "(kwargs \<Rightarrow> exn + 'a) \<Rightarrow> env \<Rightarrow> SWCClient \<Rightarrow> int \<Rightarrow> world \<Rightarrow> (exn + 'a) \<times> world" where
  "get_league_by_id League e self league_id w =
     (case call_api e self (LIST_LEAGUES_ENDPOINT @ str_int league_id) None w of
        (Inl ex, w1) \<Rightarrow> (Inl ex, w1)
      | (Inr response, w1) \<Rightarrow> (single League response, w1))"

text \<open>\<^verbatim>\<open>get_counts\<close>, lines 159-172.\<close>

definition get_counts ::
  "(kwargs \<Rightarrow> exn + 'a) \<Rightarrow> env \<Rightarrow> SWCClient \<Rightarrow> world \<Rightarrow> (exn + 'a) \<times> world" where
  "get_counts Counts e self w =
     (case call_api e self GET_COUNTS_ENDPOINT None w of
        (Inl ex, w1) \<Rightarrow> (Inl ex, w1)
      | (Inr response, w1) \<Rightarrow> (single Counts response, w1))"

text \<open>\<^verbatim>\<open>list_teams\<close>, lines 174-203.\<close>

definition list_teams ::
  "(kwargs \<Rightarrow> exn + 'a) \<Rightarrow> env \<Rightarrow> SWCClient \<Rightarrow>
   pyval option \<Rightarrow> pyval option \<Rightarrow> pyval option \<Rightarrow> pyval option \<Rightarrow> pyval option \<Rightarrow>
   world \<Rightarrow> (exn + 'a list) \<times> world" where
  "list_teams Team e self skip limit min_last_changed_date team_name league_id w =
     (case alloc [(''skip'', arg (PInt 0) skip),
                  (''limit'', arg (PInt 100) limit),
                  (''min_last_changed_date'', arg PNone min_last_changed_date),
                  (''team_name'', arg PNone team_name),
                  (''league_id'', arg PNone league_id)] w of
        (params, w1) \<Rightarrow>
          (case call_api e self LIST_TEAMS_ENDPOINT (Some params) w1 of
             (Inl ex, w2) \<Rightarrow> (Inl ex, w2)
           | (Inr response, w2) \<Rightarrow> (comprehension Team response, w2)))"

text \<open>\<^verbatim>\<open>list_players\<close>, lines 205-234.\<close>

definition list_players ::
  "(kwargs \<Rightarrow> exn + 'a) \<Rightarrow> env \<Rightarrow> SWCClient \<Rightarrow>
   pyval option \<Rightarrow> pyval option \<Rightarrow> pyval option \<Rightarrow> pyval option \<Rightarrow> pyval option \<Rightarrow>
   world \<Rightarrow> (exn + 'a list) \<times> world" where
  "list_players Player e self skip limit min_last_changed_date first_name last_name w =
     (case alloc [(''skip'', arg (PInt 0) skip),
                  (''limit'', arg (PInt 100) limit),
                  (''min_last_changed_date'', arg PNone min_last_changed_date),
                  (''first_name'', arg PNone first_name),
                  (''last_name'', arg PNone last_name)] w of
        (params, w1) \<Rightarrow>
          (case call_api e self LIST_PLAYERS_ENDPOINT (Some params) w1 of
             (Inl ex, w2) \<Rightarrow> (Inl ex, w2)
           | (Inr response, w2) \<Rightarrow> (comprehension Player response, w2)))"

text \<open>\<^verbatim>\<open>get_player_by_id\<close>, lines 236-253.\<close>

definition get_player_by_id ::
  "(kwargs \<Rightarrow> exn + 'a) \<Rightarrow> env \<Rightarrow> SWCClient \<Rightarrow> int \<Rightarrow> world \<Rightarrow> (exn + 'a) \<times> world" where
  "get_player_by_id Player e self player_id w =
     (case call_api e self (LIST_PLAYERS_ENDPOINT @ str_int player_id) None w of
        (Inl ex, w1) \<Rightarrow> (Inl ex, w1)
      | (Inr response, w1) \<Rightarrow> (single Player response, w1))"

text \<open>\<^verbatim>\<open>list_performances\<close>, lines 255-277.\<close>

definition list_performances ::
  "(kwargs \<Rightarrow> exn + 'a) \<Rightarrow> env \<Rightarrow> SWCClient \<Rightarrow>
   pyval option \<Rightarrow> pyval option \<Rightarrow> pyval option \<Rightarrow>
   world \<Rightarrow> (exn + 'a list) \<times> world" where
  "list_performances Performance e self skip limit min_last_changed_date w =
     (case alloc [(''skip'', arg (PInt 0) skip),
                  (''limit'', arg (PInt 100) limit),
                  (''min_last_changed_date'', arg PNone min_last_changed_date)] w of
        (params, w1) \<Rightarrow>
          (case call_api e self LIST_PERFORMANCES_ENDPOINT (Some params) w1 of
             (Inl ex, w2) \<Rightarrow> (Inl ex, w2)
           | (Inr response, w2) \<Rightarrow> (comprehension Performance response, w2)))"

text \<open>
  \<^verbatim>\<open>__get_bulk_file\<close>, lines 279-288: a key that is not in the table is a
  \<^verbatim>\<open>KeyError\<close>; the status code is looked at for a debug line only, and the content of
  the response is returned whatever it is.
\<close>

definition get_bulk_file ::
  "env \<Rightarrow> SWCClient \<Rightarrow> string \<Rightarrow> world \<Rightarrow> (exn + string) \<times> world" where
  "get_bulk_file e self key w =
     (case map_of (BULK_FILE_NAMES self) key of
        None \<Rightarrow> (Inl (KeyError key), w)
      | Some name \<Rightarrow>
          (case httpx_get e (BULK_FILE_BASE_URL @ name) True w of
             (Inl ex, w1) \<Rightarrow> (Inl ex, w1)
           | (Inr response, w1) \<Rightarrow> (Inr (content response), w1)))"

definition get_bulk_player_file :: "env \<Rightarrow> SWCClient \<Rightarrow> world \<Rightarrow> (exn + string) \<times> world" where
  "get_bulk_player_file e self w = get_bulk_file e self ''players'' w"

definition get_bulk_league_file :: "env \<Rightarrow> SWCClient \<Rightarrow> world \<Rightarrow> (exn + string) \<times> world" where
  "get_bulk_league_file e self w = get_bulk_file e self ''leagues'' w"

definition get_bulk_performance_file :: "env \<Rightarrow> SWCClient \<Rightarrow> world \<Rightarrow> (exn + string) \<times> world" where
  "get_bulk_performance_file e self w = get_bulk_file e self ''performances'' w"

definition get_bulk_team_file :: "env \<Rightarrow> SWCClient \<Rightarrow> world \<Rightarrow> (exn + string) \<times> world" where
  "get_bulk_team_file e self w = get_bulk_file e self ''teams'' w"

definition get_bulk_team_player_file :: "env \<Rightarrow> SWCClient \<Rightarrow> world \<Rightarrow> (exn + string) \<times> world" where
  "get_bulk_team_player_file e self w = get_bulk_file e self ''team_players'' w"

section \<open>The model classes\<close>

text \<open>
  Modelled from the spec: the classes \<^verbatim>\<open>League\<close>, \<^verbatim>\<open>Team\<close>, \<^verbatim>\<open>Player\<close> and
  \<^verbatim>\<open>Performance\<close> of \<^verbatim>\<open>schemas.py\<close>, which is missing. The fields and their types
  are those of the data model table (integer, string, timestamp, floating point, ordered
  sequence of the nested model), under the keys the payloads of the tests use; every
  field is required. A timestamp arrives as a JSON string and is kept as that string; a
  week label is a string or a number; a floating point field takes a JSON number.
  Construction yields the whole record or fails with a validation error that names the
  offending field and the type expected; a nested list validates each element with the
  nested model, and the empty list is valid.
\<close>

datatype label = LabelStr string | LabelNum int

record Performance =
  performance_id :: int
  performance_player_id :: int
  week_number :: label
  fantasy_points :: real
  performance_last_changed_date :: string

record Player =
  player_id :: int
  gsis_id :: string
  first_name :: string
  last_name :: string
  position :: string
  player_last_changed_date :: string
  performances :: "Performance list"

record Team =
  team_league_id :: int
  team_id :: int
  team_name :: string
  team_last_changed_date :: string
  players :: "Player list"

record League =
  league_id :: int
  league_name :: string
  scoring_type :: string
  last_changed_date :: string
  teams :: "Team list"

text \<open>Modelled from the spec: validation stops at the first field that fails.\<close>

definition bind_exn :: "exn + 'a \<Rightarrow> ('a \<Rightarrow> exn + 'b) \<Rightarrow> exn + 'b" where
  "bind_exn r f = (case r of Inl ex \<Rightarrow> Inl ex | Inr x \<Rightarrow> f x)"

text \<open>
  Modelled from the spec: reading one required field of a given type from the keyword
  arguments; a missing field and a value of another type are validation errors.
\<close>

definition field_int :: "kwargs \<Rightarrow> string \<Rightarrow> exn + int" where
  "field_int kw f =
     (case map_of kw f of
        Some (JInt n) \<Rightarrow> Inr n
      | _ \<Rightarrow> Inl (ValidationError f ''integer''))"

definition field_str :: "kwargs \<Rightarrow> string \<Rightarrow> exn + string" where
  "field_str kw f =
     (case map_of kw f of
        Some (JString s) \<Rightarrow> Inr s
      | _ \<Rightarrow> Inl (ValidationError f ''string''))"

definition field_timestamp :: "kwargs \<Rightarrow> string \<Rightarrow> exn + string" where
  "field_timestamp kw f =
     (case map_of kw f of
        Some (JString s) \<Rightarrow> Inr s
      | _ \<Rightarrow> Inl (ValidationError f ''timestamp''))"

definition field_float :: "kwargs \<Rightarrow> string \<Rightarrow> exn + real" where
  "field_float kw f =
     (case map_of kw f of
        Some (JFloat x) \<Rightarrow> Inr x
      | Some (JInt n) \<Rightarrow> Inr (of_int n)
      | _ \<Rightarrow> Inl (ValidationError f ''floating point''))"

definition field_label :: "kwargs \<Rightarrow> string \<Rightarrow> exn + label" where
  "field_label kw f =
     (case map_of kw f of
        Some (JString s) \<Rightarrow> Inr (LabelStr s)
      | Some (JInt n) \<Rightarrow> Inr (LabelNum n)
      | _ \<Rightarrow> Inl (ValidationError f ''string or number''))"

text \<open>
  Modelled from the spec: a nested list field validates each element with the nested
  model; the empty list is valid, a missing list is not.
\<close>

definition nested :: "string \<Rightarrow> (kwargs \<Rightarrow> exn + 'a) \<Rightarrow> json \<Rightarrow> exn + 'a" where
  "nested f Model it =
     (case it of
        JObject kw \<Rightarrow> Model kw
      | _ \<Rightarrow> Inl (ValidationError f ''object''))"

definition field_list :: "kwargs \<Rightarrow> string \<Rightarrow> (kwargs \<Rightarrow> exn + 'a) \<Rightarrow> exn + 'a list" where
  "field_list kw f Model =
     (case map_of kw f of
        Some (JArray js) \<Rightarrow> collect (nested f Model) js
      | _ \<Rightarrow> Inl (ValidationError f ''list''))"

text \<open>Modelled from the spec: \<^verbatim>\<open>Performance(**kw)\<close>, the construction of a performance.\<close>

definition Performance_model :: "kwargs \<Rightarrow> exn + Performance" where
  "Performance_model kw =
     bind_exn (field_int kw ''performance_id'') (\<lambda>i.
     bind_exn (field_int kw ''player_id'') (\<lambda>p.
     bind_exn (field_label kw ''week_number'') (\<lambda>wk.
     bind_exn (field_float kw ''fantasy_points'') (\<lambda>pts.
     bind_exn (field_timestamp kw ''last_changed_date'') (\<lambda>t.
       Inr \<lparr>performance_id = i, performance_player_id = p, week_number = wk,
            fantasy_points = pts, performance_last_changed_date = t\<rparr>)))))"

text \<open>Modelled from the spec: \<^verbatim>\<open>Player(**kw)\<close>, the construction of a player, with its performances.\<close>

definition Player_model :: "kwargs \<Rightarrow> exn + Player" where
  "Player_model kw =
     bind_exn (field_int kw ''player_id'') (\<lambda>i.
     bind_exn (field_str kw ''gsis_id'') (\<lambda>g.
     bind_exn (field_str kw ''first_name'') (\<lambda>fn.
     bind_exn (field_str kw ''last_name'') (\<lambda>ln.
     bind_exn (field_str kw ''position'') (\<lambda>pos.
     bind_exn (field_timestamp kw ''last_changed_date'') (\<lambda>t.
     bind_exn (field_list kw ''performances'' Performance_model) (\<lambda>ps.
       Inr \<lparr>player_id = i, gsis_id = g, first_name = fn, last_name = ln,
            position = pos, player_last_changed_date = t, performances = ps\<rparr>)))))))"

text \<open>Modelled from the spec: \<^verbatim>\<open>Team(**kw)\<close>, the construction of a team, with its players.\<close>

definition Team_model :: "kwargs \<Rightarrow> exn + Team" where
  "Team_model kw =
     bind_exn (field_int kw ''league_id'') (\<lambda>l.
     bind_exn (field_int kw ''team_id'') (\<lambda>i.
     bind_exn (field_str kw ''team_name'') (\<lambda>n.
     bind_exn (field_timestamp kw ''last_changed_date'') (\<lambda>t.
     bind_exn (field_list kw ''players'' Player_model) (\<lambda>ps.
       Inr \<lparr>team_league_id = l, team_id = i, team_name = n,
            team_last_changed_date = t, players = ps\<rparr>)))))"

text \<open>Modelled from the spec: \<^verbatim>\<open>League(**kw)\<close>, the construction of a league, with its teams.\<close>

definition League_model :: "kwargs \<Rightarrow> exn + League" where
  "League_model kw =
     bind_exn (field_int kw ''league_id'') (\<lambda>i.
     bind_exn (field_str kw ''league_name'') (\<lambda>n.
     bind_exn (field_str kw ''scoring_type'') (\<lambda>s.
     bind_exn (field_timestamp kw ''last_changed_date'') (\<lambda>t.
     bind_exn (field_list kw ''teams'' Team_model) (\<lambda>ts.
       Inr \<lparr>league_id = i, league_name = n, scoring_type = s,
            last_changed_date = t, teams = ts\<rparr>)))))"

text \<open>The league payload of the tests (\<^verbatim>\<open>sample_league_data\<close>).\<close>

definition sample_league_data :: kwargs where
  "sample_league_data =
     [(''league_id'', JInt 1),
      (''league_name'', JString ''Test League''),
      (''scoring_type'', JString ''standard''),
      (''last_changed_date'', JString ''2024-01-01T00:00:00''),
      (''teams'', JArray [])]"

section \<open>Notions used to state the properties\<close>

text \<open>The request \<open>call_api\<close> hands to the HTTP client of \<open>self\<close>.\<close>

definition api_request :: "SWCClient \<Rightarrow> string \<Rightarrow> params option \<Rightarrow> Request" where
  "api_request self endpoint ps =
     \<lparr>req_base_url = Some (client_base_url (http_client self)),
      req_url = endpoint,
      req_params = ps,
      req_follow_redirects = False\<rparr>"

text \<open>The request of a bulk download.\<close>

definition bulk_request :: "string \<Rightarrow> Request" where
  "bulk_request url =
     \<lparr>req_base_url = None, req_url = url, req_params = None, req_follow_redirects = True\<rparr>"

definition strip :: "params \<Rightarrow> params" where
  "strip ps = filter (\<lambda>(k, v). v \<noteq> PNone) ps"

text \<open>What \<open>call_api\<close> makes of the outcome of its GET.\<close>

definition checked :: "outcome \<Rightarrow> outcome" where
  "checked out =
     (case out of
        Inl ex \<Rightarrow> Inl ex
      | Inr r \<Rightarrow> (case json_body r of None \<Rightarrow> Inl JSONDecodeError | Some j \<Rightarrow> Inr r))"

text \<open>
  A call that ran from \<open>w\<close> to the result \<open>R\<close> made a single attempt: one request went
  on the wire, and if the transport raised there, the call raised the same exception.
\<close>

definition single_attempt :: "env \<Rightarrow> world \<Rightarrow> (exn + 'a) \<times> world \<Rightarrow> bool" where
  "single_attempt e w R =
     (\<exists>req. wire (snd R) = wire w @ [req] \<and>
            (\<forall>ex. server e (length (wire w)) req = Inl ex \<longrightarrow> fst R = Inl ex))"

text \<open>The extension a configuration selects.\<close>

definition extension :: "SWCConfig \<Rightarrow> string" where
  "extension cfg =
     (if lower (swc_bulk_file_format cfg) = ''parquet'' then ''.parquet'' else ''.csv'')"

text \<open>The five bulk file operations, each with its logical file name.\<close>

definition bulk_operations ::
  "((env \<Rightarrow> SWCClient \<Rightarrow> world \<Rightarrow> (exn + string) \<times> world) \<times> string) list" where
  "bulk_operations =
     [(get_bulk_player_file, ''player_data''),
      (get_bulk_league_file, ''league_data''),
      (get_bulk_performance_file, ''performance_data''),
      (get_bulk_team_file, ''team_data''),
      (get_bulk_team_player_file, ''team_player_data'')]"

subsection \<open>Concrete configurations, servers and stores\<close>

text \<open>The configuration of the test fixtures: backoff disabled, format \<^verbatim>\<open>csv\<close>.\<close>

definition config0 :: SWCConfig where
  "config0 = \<lparr>swc_base_url = ''https://api.test.com'', swc_backoff = False,
              swc_backoff_max_time = 30, swc_bulk_file_format = ''csv''\<rparr>"

text \<open>A configuration with backoff enabled and a given bulk file format.\<close>

definition config_format :: "string \<Rightarrow> SWCConfig" where
  "config_format fmt = \<lparr>swc_base_url = ''https://api.test.com'', swc_backoff = True,
              swc_backoff_max_time = 30, swc_bulk_file_format = fmt\<rparr>"

text \<open>A server whose first answer is an HTTP status error and whose later answers are fine.\<close>

definition env0 :: env where
  "env0 =
     \<lparr>server = (\<lambda>n req. if n = 0 then Inl (HTTPStatusError 500 ''Internal Server Error'')
                          else Inr \<lparr>status_code = 200, content = ''{}'',
                                    json_body = Some (JObject [])\<rparr>),
      retrying = (\<lambda>r h. h)\<rparr>"

text \<open>A server that answers every request with status 404.\<close>

definition env404 :: env where
  "env404 =
     \<lparr>server = (\<lambda>n req. Inr \<lparr>status_code = 404, content = ''404: Not Found'',
                              json_body = None\<rparr>),
      retrying = (\<lambda>r h. h)\<rparr>"

definition world0 :: world where
  "world0 = \<lparr>heap = [], calls = [], wire = []\<rparr>"

text \<open>A store holding the dictionary \<^verbatim>\<open>{"param1": "value", "param2": None}\<close>.\<close>

definition world1 :: world where
  "world1 = \<lparr>heap = [[(''param1'', PStr ''value''), (''param2'', PNone)]],
             calls = [], wire = []\<rparr>"

subsection \<open>Notions for the list operations\<close>

text \<open>
  The call that ran from \<open>w\<close> to \<open>R\<close> assembled, as its new dictionary, a parameter
  mapping with \<^verbatim>\<open>skip\<close> 0 and \<^verbatim>\<open>limit\<close> 100, and the GET it issued carries both.
\<close>

definition default_pagination :: "world \<Rightarrow> 'a \<times> world \<Rightarrow> bool" where
  "default_pagination w R =
     (map_of (heap (snd R) ! length (heap w)) ''skip'' = Some (PInt 0)
      \<and> map_of (heap (snd R) ! length (heap w)) ''limit'' = Some (PInt 100)
      \<and> (\<exists>req ps. calls (snd R) = calls w @ [req]
                  \<and> req_params req = Some ps
                  \<and> map_of ps ''skip'' = Some (PInt 0)
                  \<and> map_of ps ''limit'' = Some (PInt 100)))"

text \<open>
  The result \<open>r\<close> of building records from the elements \<open>js\<close>: a returned sequence is
  as long as \<open>js\<close> and its \<open>i\<close>-th element is what \<open>f\<close> builds from the \<open>i\<close>-th
  element of \<open>js\<close>; and a sequence is returned when every element can be built.
\<close>

definition in_body_order :: "('a \<Rightarrow> exn + 'b) \<Rightarrow> 'a list \<Rightarrow> exn + 'b list \<Rightarrow> bool" where
  "in_body_order f js r =
     ((\<forall>xs. r = Inr xs \<longrightarrow>
             length xs = length js \<and> (\<forall>i<length js. f (js ! i) = Inr (xs ! i)))
      \<and> ((\<forall>j\<in>set js. \<exists>x. f j = Inr x) \<longrightarrow> (\<exists>xs. r = Inr xs)))"

text \<open>
  The list operation that ran from \<open>w\<close> to \<open>R\<close> maps the body of its response:
  whenever the HTTP client answers the request of the operation with a response whose
  JSON body is an array, the result is built from that array element by element.
\<close>

definition maps_body ::
  "env \<Rightarrow> SWCClient \<Rightarrow> world \<Rightarrow> (kwargs \<Rightarrow> exn + 'a) \<Rightarrow> (exn + 'a list) \<times> world \<Rightarrow> bool" where
  "maps_body e self w Model R =
     (\<forall>response js.
        fst (Client_send e (http_client self) (last (calls (snd R))) (wire w)) = Inr response
        \<and> json_body response = Some (JArray js)
        \<longrightarrow> in_body_order (construct Model) js (fst R))"

text \<open>A server that answers every request with status 200 and a given JSON body.\<close>

definition env_json :: "string \<Rightarrow> json \<Rightarrow> env" where
  "env_json body j =
     \<lparr>server = (\<lambda>n req. Inr \<lparr>status_code = 200, content = body, json_body = Some j\<rparr>),
      retrying = (\<lambda>r h. h)\<rparr>"

text \<open>An array of two objects, and its text.\<close>

definition two_leagues :: "json list" where
  "two_leagues =
     [JObject [(''league_id'', JInt 1), (''league_name'', JString ''A'')],
      JObject [(''league_id'', JInt 2), (''league_name'', JString ''B'')]]"

definition two_leagues_body :: string where
  "two_leagues_body =
     ''[{\"league_id\": 1, \"league_name\": \"A\"}, {\"league_id\": 2, \"league_name\": \"B\"}]''"

text \<open>The record of the league payload of the tests, and the text of the payload.\<close>

definition sample_league :: League where
  "sample_league =
     \<lparr>league_id = 1, league_name = ''Test League'', scoring_type = ''standard'',
      last_changed_date = ''2024-01-01T00:00:00'', teams = []\<rparr>"

definition sample_league_body :: string where
  "sample_league_body =
     ''{\"league_id\": 1, \"league_name\": \"Test League\", \"scoring_type\": \"standard\", \"last_changed_date\": \"2024-01-01T00:00:00\", \"teams\": []}''"

section \<open>Facts about the call API operation\<close>

lemma call_api_calls:
  "calls (snd (call_api e self endpoint p w)) =
     calls w @ [api_request self endpoint (map_option (\<lambda>a. strip (heap w ! a)) p)]"
  by (cases p)
     (auto simp: call_api_def Client_get_def alloc_def api_request_def strip_def Let_def
           split: prod.splits sum.splits option.splits)

lemma call_api_wire:
  "wire (snd (call_api e self endpoint p w)) =
     snd (Client_send e (http_client self)
            (api_request self endpoint (map_option (\<lambda>a. strip (heap w ! a)) p)) (wire w))"
  by (cases p)
     (auto simp: call_api_def Client_get_def alloc_def api_request_def strip_def Let_def
           split: prod.splits sum.splits option.splits)

lemma call_api_fst:
  "fst (call_api e self endpoint p w) =
     checked (fst (Client_send e (http_client self)
            (api_request self endpoint (map_option (\<lambda>a. strip (heap w ! a)) p)) (wire w)))"
  by (cases p)
     (auto simp: call_api_def Client_get_def alloc_def api_request_def strip_def Let_def
                 checked_def response_json_def
           split: prod.splits sum.splits option.splits)

lemma call_api_heap:
  "take (length (heap w)) (heap (snd (call_api e self endpoint p w))) = heap w"
  by (cases p)
     (auto simp: call_api_def Client_get_def alloc_def Let_def
           split: prod.splits sum.splits option.splits)

lemma outcome_case_snd:
  "snd (case X of (Inl ex, w2) \<Rightarrow> (Inl ex, w2) | (Inr r, w2) \<Rightarrow> (f r, w2)) = snd X"
  by (auto split: prod.splits sum.splits)

lemma outcome_case_fst:
  "fst (case X of (Inl ex, w2) \<Rightarrow> (Inl ex, w2) | (Inr r, w2) \<Rightarrow> (f r, w2)) =
     (case fst X of Inl ex \<Rightarrow> Inl ex | Inr r \<Rightarrow> f r)"
  by (auto split: prod.splits sum.splits)

lemma Client_send_default:
  "client_transport c = DefaultTransport \<Longrightarrow>
     Client_send e c req ws = (server e (length ws) req, ws @ [req])"
  by (simp add: Client_send_def send_def)

lemma init_transport:
  "\<not> swc_backoff cfg \<Longrightarrow>
     client_transport (http_client (SWCClient_init cfg)) = DefaultTransport"
  by (simp add: SWCClient_init_def Let_def)

section \<open>Stripping of unset parameters\<close>

text \<open>
  C1. Whatever the endpoint and whatever dictionary \<open>params\<close> refers to, the GET that
  \<open>call_api\<close> issues carries a dictionary \<open>ps\<close> in which no key is bound to
  \<^verbatim>\<open>None\<close>, and a pair whose value is not \<^verbatim>\<open>None\<close> is in \<open>ps\<close> exactly when it is
  in the caller's dictionary: \<open>ps\<close> is the caller's dictionary without its unset
  entries, in the same order.
\<close>

theorem call_api_strips_unset:
  assumes "a < length (heap w)"
  shows "\<exists>ps. calls (snd (call_api e self endpoint (Some a) w))
               = calls w @ [api_request self endpoint (Some ps)]
            \<and> (\<forall>k. (k, PNone) \<notin> set ps)
            \<and> (\<forall>k v. v \<noteq> PNone \<longrightarrow> ((k, v) \<in> set ps) = ((k, v) \<in> set (heap w ! a)))
            \<and> ps = filter (\<lambda>(k, v). v \<noteq> PNone) (heap w ! a)"
  by (auto simp: call_api_calls strip_def)

theorem call_api_strips_unset_witness:
  "0 < length (heap world1)
   \<and> heap world1 ! 0 = [(''param1'', PStr ''value''), (''param2'', PNone)]
   \<and> calls (snd (call_api env0 (SWCClient_init config0) ''/test'' (Some 0) world1))
       = [api_request (SWCClient_init config0) ''/test'' (Some [(''param1'', PStr ''value'')])]"
proof -
  have h: "0 < length (heap world1)" by (simp add: world1_def)
  show ?thesis
    using h call_api_strips_unset [OF h, of env0 "SWCClient_init config0" "''/test''"]
    by (auto simp: world1_def)
qed

text \<open>
  C10. \<open>call_api\<close> leaves the caller's dictionary as it was: after the call, whether it
  returned or raised, the object \<open>params\<close> refers to holds the pairs it held before,
  those bound to \<^verbatim>\<open>None\<close> included, and so does every other dictionary that existed;
  the stripped dictionary is a new object.
\<close>

theorem call_api_keeps_callers_mapping:
  assumes "a < length (heap w)"
  shows "heap (snd (call_api e self endpoint (Some a) w)) ! a = heap w ! a
       \<and> take (length (heap w)) (heap (snd (call_api e self endpoint (Some a) w))) = heap w"
proof -
  have t: "take (length (heap w)) (heap (snd (call_api e self endpoint (Some a) w))) = heap w"
    by (rule call_api_heap)
  have "take (length (heap w)) (heap (snd (call_api e self endpoint (Some a) w))) ! a
          = heap (snd (call_api e self endpoint (Some a) w)) ! a"
    using assms by simp
  with t show ?thesis by simp
qed

theorem call_api_keeps_callers_mapping_witness:
  "0 < length (heap world1)
   \<and> fst (call_api env0 (SWCClient_init config0) ''/test'' (Some 0) world1)
       = Inl (HTTPStatusError 500 ''Internal Server Error'')
   \<and> heap (snd (call_api env0 (SWCClient_init config0) ''/test'' (Some 0) world1)) ! 0
       = [(''param1'', PStr ''value''), (''param2'', PNone)]"
proof -
  have h: "0 < length (heap world1)" by (simp add: world1_def)
  have f: "fst (call_api env0 (SWCClient_init config0) ''/test'' (Some 0) world1)
       = Inl (HTTPStatusError 500 ''Internal Server Error'')"
    by (simp add: call_api_fst Client_send_default init_transport config0_def env0_def
                  world1_def checked_def)
  show ?thesis
    using h f call_api_keeps_callers_mapping [OF h, of env0 "SWCClient_init config0" "''/test''"]
    by (simp add: world1_def)
qed

section \<open>Errors without backoff\<close>

lemma call_api_single_attempt:
  assumes "client_transport (http_client self) = DefaultTransport"
  shows "single_attempt e w (call_api e self endpoint p w)"
  unfolding single_attempt_def
  by (simp add: call_api_wire call_api_fst Client_send_default [OF assms] checked_def)

lemma single_attempt_parse:
  assumes "single_attempt e w X"
  shows "single_attempt e w
           (case X of (Inl ex, w2) \<Rightarrow> (Inl ex, w2) | (Inr r, w2) \<Rightarrow> (f r, w2))"
  using assms unfolding single_attempt_def
  by (auto simp: outcome_case_snd outcome_case_fst)

lemma single_attempt_wire:
  assumes "wire w' = wire w" and "single_attempt e w' X"
  shows "single_attempt e w X"
  using assms unfolding single_attempt_def by simp

lemma single_attempt_list:
  assumes "\<And>p w'. single_attempt e w' (call_api e self endpoint p w')"
  shows "single_attempt e w
           (case alloc d w of
              (params, w1) \<Rightarrow>
                (case call_api e self endpoint (Some params) w1 of
                   (Inl ex, w2) \<Rightarrow> (Inl ex, w2)
                 | (Inr response, w2) \<Rightarrow> (f response, w2)))"
proof -
  have "single_attempt e (w\<lparr>heap := heap w @ [d]\<rparr>)
          (call_api e self endpoint (Some (length (heap w))) (w\<lparr>heap := heap w @ [d]\<rparr>))"
    by (rule assms)
  then have "single_attempt e w
          (call_api e self endpoint (Some (length (heap w))) (w\<lparr>heap := heap w @ [d]\<rparr>))"
    by (rule single_attempt_wire [rotated]) simp
  then show ?thesis
    by (simp add: alloc_def single_attempt_parse)
qed

text \<open>
  C3. With backoff disabled in the configuration, \<open>call_api\<close> and every operation of
  the API built on it put exactly one request on the wire, and whatever exception the
  transport raises on that attempt (an HTTP status error and a request error among them)
  is the exception the caller gets: there is no second attempt.
\<close>

theorem no_backoff_error_propagates:
  assumes "\<not> swc_backoff cfg"
  shows "single_attempt e w (call_api e (SWCClient_init cfg) endpoint params w)
       \<and> single_attempt e w (get_health_check e (SWCClient_init cfg) w)
       \<and> single_attempt e w (list_leagues League e (SWCClient_init cfg) skip limit date name1 w)
       \<and> single_attempt e w (get_league_by_id League e (SWCClient_init cfg) i w)
       \<and> single_attempt e w (get_counts Counts e (SWCClient_init cfg) w)
       \<and> single_attempt e w
            (list_teams Team e (SWCClient_init cfg) skip limit date name1 name2 w)
       \<and> single_attempt e w
            (list_players Player e (SWCClient_init cfg) skip limit date name1 name2 w)
       \<and> single_attempt e w (get_player_by_id Player e (SWCClient_init cfg) i w)
       \<and> single_attempt e w
            (list_performances Performance e (SWCClient_init cfg) skip limit date w)"
proof -
  have api: "single_attempt e w' (call_api e (SWCClient_init cfg) ep p w')" for ep p w'
    by (rule call_api_single_attempt [OF init_transport [OF assms]])
  have "single_attempt e w (get_health_check e (SWCClient_init cfg) w)"
    unfolding get_health_check_def by (rule api)
  moreover have "single_attempt e w
      (list_leagues League e (SWCClient_init cfg) skip limit date name1 w)"
    unfolding list_leagues_def by (rule single_attempt_list [OF api])
  moreover have "single_attempt e w (get_league_by_id League e (SWCClient_init cfg) i w)"
    unfolding get_league_by_id_def by (rule single_attempt_parse [OF api])
  moreover have "single_attempt e w (get_counts Counts e (SWCClient_init cfg) w)"
    unfolding get_counts_def by (rule single_attempt_parse [OF api])
  moreover have "single_attempt e w
      (list_teams Team e (SWCClient_init cfg) skip limit date name1 name2 w)"
    unfolding list_teams_def by (rule single_attempt_list [OF api])
  moreover have "single_attempt e w
      (list_players Player e (SWCClient_init cfg) skip limit date name1 name2 w)"
    unfolding list_players_def by (rule single_attempt_list [OF api])
  moreover have "single_attempt e w (get_player_by_id Player e (SWCClient_init cfg) i w)"
    unfolding get_player_by_id_def by (rule single_attempt_parse [OF api])
  moreover have "single_attempt e w
      (list_performances Performance e (SWCClient_init cfg) skip limit date w)"
    unfolding list_performances_def by (rule single_attempt_list [OF api])
  ultimately show ?thesis
    using api [of w endpoint params] by blast
qed

theorem no_backoff_error_propagates_witness:
  "\<not> swc_backoff config0
   \<and> server env0 (length (wire world0)) (api_request (SWCClient_init config0) ''/'' None)
       = Inl (HTTPStatusError 500 ''Internal Server Error'')
   \<and> fst (get_health_check env0 (SWCClient_init config0) world0)
       = Inl (HTTPStatusError 500 ''Internal Server Error'')
   \<and> length (wire (snd (get_health_check env0 (SWCClient_init config0) world0))) = 1"
proof -
  have h: "\<not> swc_backoff config0" by (simp add: config0_def)
  have s: "server env0 (length (wire world0)) req
             = Inl (HTTPStatusError 500 ''Internal Server Error'')" for req
    by (simp add: env0_def world0_def)
  have "single_attempt env0 world0 (get_health_check env0 (SWCClient_init config0) world0)"
    using no_backoff_error_propagates [OF h, of env0 world0] by blast
  then show ?thesis
    using h s unfolding single_attempt_def by (auto simp: world0_def)
qed

section \<open>Bulk files\<close>

lemma init_names:
  "map_of (BULK_FILE_NAMES (SWCClient_init cfg)) ''players''
     = Some (''player_data'' @ extension cfg)"
  "map_of (BULK_FILE_NAMES (SWCClient_init cfg)) ''leagues''
     = Some (''league_data'' @ extension cfg)"
  "map_of (BULK_FILE_NAMES (SWCClient_init cfg)) ''performances''
     = Some (''performance_data'' @ extension cfg)"
  "map_of (BULK_FILE_NAMES (SWCClient_init cfg)) ''teams''
     = Some (''team_data'' @ extension cfg)"
  "map_of (BULK_FILE_NAMES (SWCClient_init cfg)) ''team_players''
     = Some (''team_player_data'' @ extension cfg)"
  by (simp_all add: SWCClient_init_def BULK_FILE_NAMES_0_def extension_def Let_def)

lemma lower_PARQUET: "lower ''PARQUET'' = ''parquet''"
  by code_simp

lemma lower_CSV: "lower ''CSV'' = ''csv''"
  by code_simp

lemma lower_Parquet: "lower ''Parquet'' = ''parquet''"
  by code_simp

lemma lower_parquet: "lower ''parquet'' = ''parquet''"
  by code_simp

text \<open>
  C2, as the code has it. The extension is chosen by the lower-cased format: each of the
  five lookups in the file name table gives a name that ends in \<^verbatim>\<open>.parquet\<close> when the
  configured format, lower-cased, is \<^verbatim>\<open>parquet\<close> (so for \<^verbatim>\<open>parquet\<close>, \<^verbatim>\<open>Parquet\<close> and
  \<^verbatim>\<open>PARQUET\<close>), and in \<^verbatim>\<open>.csv\<close> for every other format, \<^verbatim>\<open>CSV\<close> included.
\<close>

theorem bulk_file_names_extension:
  assumes "key \<in> set [''players'', ''leagues'', ''performances'', ''teams'', ''team_players'']"
  shows "\<exists>name. map_of (BULK_FILE_NAMES (SWCClient_init cfg)) key = Some name
              \<and> suffix (if lower (swc_bulk_file_format cfg) = ''parquet''
                         then ''.parquet'' else ''.csv'') name"
proof -
  have "suffix (extension cfg) (extension cfg)"
    by simp
  then show ?thesis
    using assms unfolding extension_def [symmetric]
    by (auto simp: init_names intro!: suffix_ConsI)
qed

theorem bulk_file_names_extension_witness:
  "''teams'' \<in> set [''players'', ''leagues'', ''performances'', ''teams'', ''team_players'']
   \<and> map_of (BULK_FILE_NAMES (SWCClient_init (config_format ''PARQUET''))) ''teams''
       = Some ''team_data.parquet''
   \<and> suffix ''.parquet'' ''team_data.parquet''
   \<and> map_of (BULK_FILE_NAMES (SWCClient_init (config_format ''CSV''))) ''teams''
       = Some ''team_data.csv''
   \<and> suffix ''.csv'' ''team_data.csv''"
proof -
  have k: "''teams'' \<in> set [''players'', ''leagues'', ''performances'', ''teams'', ''team_players'']"
    by simp
  have p: "map_of (BULK_FILE_NAMES (SWCClient_init (config_format ''PARQUET''))) ''teams''
       = Some ''team_data.parquet''"
    by (simp add: init_names extension_def config_format_def lower_PARQUET)
  have c: "map_of (BULK_FILE_NAMES (SWCClient_init (config_format ''CSV''))) ''teams''
       = Some ''team_data.csv''"
    by (simp add: init_names extension_def config_format_def lower_CSV)
  have "suffix ''.parquet'' ''team_data.parquet''"
    using bulk_file_names_extension [OF k, of "config_format ''PARQUET''"] p
    by (simp add: config_format_def lower_PARQUET)
  moreover have "suffix ''.csv'' ''team_data.csv''"
    using bulk_file_names_extension [OF k, of "config_format ''CSV''"] c
    by (simp add: config_format_def lower_CSV)
  ultimately show ?thesis
    using k p c by simp
qed

text \<open>
  C2, as the claim words it, fails: the format \<^verbatim>\<open>Parquet\<close> is not the string
  \<^verbatim>\<open>parquet\<close>, yet the file name for the players is \<^verbatim>\<open>player_data.parquet\<close>, which
  does not end in \<^verbatim>\<open>.csv\<close>.
\<close>

theorem bulk_file_names_extension_counterexample:
  "''Parquet'' \<noteq> ''parquet''
   \<and> map_of (BULK_FILE_NAMES (SWCClient_init (config_format ''Parquet''))) ''players''
       = Some ''player_data.parquet''
   \<and> \<not> suffix ''.csv'' ''player_data.parquet''"
proof -
  have "map_of (BULK_FILE_NAMES (SWCClient_init (config_format ''Parquet''))) ''players''
       = Some ''player_data.parquet''"
    by (simp add: init_names extension_def config_format_def lower_Parquet)
  moreover have "\<not> suffix ''.csv'' ''player_data.parquet''"
    by (simp add: suffix_to_prefix)
  ultimately show ?thesis by simp
qed

lemma get_bulk_file_eq:
  assumes "map_of (BULK_FILE_NAMES self) key = Some name"
  shows "get_bulk_file e self key w =
           ((case server e (length (wire w)) (bulk_request (BULK_FILE_BASE_URL @ name)) of
               Inl ex \<Rightarrow> Inl ex | Inr response \<Rightarrow> Inr (content response)),
            w\<lparr>calls := calls w @ [bulk_request (BULK_FILE_BASE_URL @ name)],
              wire := wire w @ [bulk_request (BULK_FILE_BASE_URL @ name)]\<rparr>)"
  using assms
  by (simp add: get_bulk_file_def httpx_get_def send_def bulk_request_def Let_def
           split: sum.splits)

lemma bulk_operations_eq:
  assumes "(op, stem) \<in> set bulk_operations"
  shows "op e (SWCClient_init cfg) w =
           ((case server e (length (wire w))
                   (bulk_request (BULK_FILE_BASE_URL @ stem @ extension cfg)) of
               Inl ex \<Rightarrow> Inl ex | Inr response \<Rightarrow> Inr (content response)),
            w\<lparr>calls := calls w @ [bulk_request (BULK_FILE_BASE_URL @ stem @ extension cfg)],
              wire := wire w @ [bulk_request (BULK_FILE_BASE_URL @ stem @ extension cfg)]\<rparr>)"
  using assms
  by (auto simp: bulk_operations_def get_bulk_player_file_def get_bulk_league_file_def
        get_bulk_performance_file_def get_bulk_team_file_def get_bulk_team_player_file_def
        get_bulk_file_eq [OF init_names(1)] get_bulk_file_eq [OF init_names(2)]
        get_bulk_file_eq [OF init_names(3)] get_bulk_file_eq [OF init_names(4)]
        get_bulk_file_eq [OF init_names(5)])

text \<open>
  C4. Each of the five bulk file operations returns the body of the response it gets,
  whatever the status code \<open>sc\<close> of that response is: no status makes it raise.
\<close>

theorem bulk_file_returns_content:
  assumes "(op, stem) \<in> set bulk_operations"
    and "server e (length (wire w)) (bulk_request (BULK_FILE_BASE_URL @ stem @ extension cfg))
           = Inr \<lparr>status_code = sc, content = body, json_body = j\<rparr>"
  shows "fst (op e (SWCClient_init cfg) w) = Inr body"
  using assms(2) by (simp add: bulk_operations_eq [OF assms(1)])

theorem bulk_file_returns_content_witness:
  "(get_bulk_team_file, ''team_data'') \<in> set bulk_operations
   \<and> server env404 (length (wire world0))
        (bulk_request (BULK_FILE_BASE_URL @ ''team_data'' @ extension config0))
       = Inr \<lparr>status_code = 404, content = ''404: Not Found'', json_body = None\<rparr>
   \<and> fst (get_bulk_team_file env404 (SWCClient_init config0) world0) = Inr ''404: Not Found''"
proof -
  have m: "(get_bulk_team_file, ''team_data'') \<in> set bulk_operations"
    by (simp add: bulk_operations_def)
  have s: "server env404 (length (wire world0))
        (bulk_request (BULK_FILE_BASE_URL @ ''team_data'' @ extension config0))
       = Inr \<lparr>status_code = 404, content = ''404: Not Found'', json_body = None\<rparr>"
    by (simp add: env404_def)
  show ?thesis
    using m s bulk_file_returns_content [OF m s] by simp
qed

text \<open>
  C8. Each of the five bulk file operations makes one call to httpx, outside the HTTP
  client of the API: a GET of the bulk file base URL followed by the logical file name
  of the operation and the configured extension, with redirects followed. The request
  goes on the wire once and directly, so the retrying transport has no part in it:
  replacing the retry behaviour changes nothing.
\<close>

theorem bulk_file_request:
  assumes "(op, stem) \<in> set bulk_operations"
  shows "calls (snd (op e (SWCClient_init cfg) w))
           = calls w @ [bulk_request (BULK_FILE_BASE_URL @ stem @ extension cfg)]
       \<and> wire (snd (op e (SWCClient_init cfg) w))
           = wire w @ [bulk_request (BULK_FILE_BASE_URL @ stem @ extension cfg)]
       \<and> op (e\<lparr>retrying := r\<rparr>) (SWCClient_init cfg) w = op e (SWCClient_init cfg) w"
  by (simp add: bulk_operations_eq [OF assms])

theorem bulk_file_request_witness:
  "(get_bulk_team_player_file, ''team_player_data'') \<in> set bulk_operations
   \<and> swc_backoff (config_format ''parquet'')
   \<and> wire (snd (get_bulk_team_player_file env404
                  (SWCClient_init (config_format ''parquet'')) world0))
       = [\<lparr>req_base_url = None,
           req_url = ''https://raw.githubusercontent.com/evrins/hands-on-api-data/main/bulk/team_player_data.parquet'',
           req_params = None,
           req_follow_redirects = True\<rparr>]"
proof -
  have m: "(get_bulk_team_player_file, ''team_player_data'') \<in> set bulk_operations"
    by (simp add: bulk_operations_def)
  have b: "swc_backoff (config_format ''parquet'')"
    by (simp add: config_format_def)
  have x: "extension (config_format ''parquet'') = ''.parquet''"
    by (simp add: extension_def config_format_def lower_parquet)
  have "wire (snd (get_bulk_team_player_file env404
                     (SWCClient_init (config_format ''parquet'')) world0))
          = wire world0 @ [bulk_request (BULK_FILE_BASE_URL @ ''team_player_data''
                                          @ extension (config_format ''parquet''))]"
    using bulk_file_request [OF m, of env404 "config_format ''parquet''" world0] by simp
  then show ?thesis
    using m b by (simp add: x bulk_request_def BULK_FILE_BASE_URL_def world0_def)
qed

section \<open>Facts about the list and detail operations\<close>

lemma list_shape_calls:
  "calls (snd (case alloc d w of
                 (params, w1) \<Rightarrow>
                   (case call_api e self ep (Some params) w1 of
                      (Inl ex, w2) \<Rightarrow> (Inl ex, w2)
                    | (Inr response, w2) \<Rightarrow> (f response, w2))))
     = calls w @ [api_request self ep (Some (strip d))]"
  by (simp add: alloc_def outcome_case_snd call_api_calls)

lemma list_shape_fst:
  "fst (case alloc d w of
          (params, w1) \<Rightarrow>
            (case call_api e self ep (Some params) w1 of
               (Inl ex, w2) \<Rightarrow> (Inl ex, w2)
             | (Inr response, w2) \<Rightarrow> (f response, w2)))
     = (case checked (fst (Client_send e (http_client self)
                             (api_request self ep (Some (strip d))) (wire w))) of
          Inl ex \<Rightarrow> Inl ex
        | Inr response \<Rightarrow> f response)"
  by (simp add: alloc_def outcome_case_fst call_api_fst)

lemma list_shape_heap:
  "heap (snd (case alloc d w of
                 (params, w1) \<Rightarrow>
                   (case call_api e self ep (Some params) w1 of
                      (Inl ex, w2) \<Rightarrow> (Inl ex, w2)
                    | (Inr response, w2) \<Rightarrow> (f response, w2)))) ! length (heap w) = d"
proof -
  let ?w1 = "w\<lparr>heap := heap w @ [d]\<rparr>"
  let ?R = "call_api e self ep (Some (length (heap w))) ?w1"
  have "take (length (heap ?w1)) (heap (snd ?R)) = heap ?w1"
    by (rule call_api_heap)
  then have "take (length (heap ?w1)) (heap (snd ?R)) ! length (heap w) = (heap w @ [d]) ! length (heap w)"
    by simp
  then have "heap (snd ?R) ! length (heap w) = d"
    by simp
  then show ?thesis
    by (simp add: alloc_def outcome_case_snd)
qed

lemma of_char_digit: "d < 10 \<Longrightarrow> of_char (digit_char d) = 48 + d"
  by (simp add: digit_char_def)

lemma str_nat_digits: "c \<in> set (str_nat n) \<Longrightarrow> 48 \<le> (of_char c :: nat) \<and> (of_char c :: nat) \<le> 57"
proof (induction n arbitrary: c rule: str_nat.induct)
  case (1 n)
  show ?case
  proof (cases "n < 10")
    case True
    with "1.prems" have "c = digit_char n" by (simp add: str_nat.simps [of n])
    with True show ?thesis by (simp add: of_char_digit)
  next
    case False
    with "1.prems" have "c \<in> set (str_nat (n div 10)) \<or> c = digit_char (n mod 10)"
      by (auto simp: str_nat.simps [of n])
    then show ?thesis
    proof
      assume "c \<in> set (str_nat (n div 10))"
      with False "1.IH" show ?thesis by simp
    next
      assume "c = digit_char (n mod 10)"
      then show ?thesis by (simp add: of_char_digit)
    qed
  qed
qed

lemma str_int_no_slash: "CHR ''/'' \<notin> set (str_int i)"
proof
  assume a: "CHR ''/'' \<in> set (str_int i)"
  have "CHR ''/'' \<in> set (str_nat (nat (- i))) \<or> CHR ''/'' \<in> set (str_nat (nat i))"
    using a by (auto simp: str_int_def split: if_splits)
  then have "48 \<le> (of_char CHR ''/'' :: nat)"
    using str_nat_digits by blast
  then show False by simp
qed

lemma str_int_1: "str_int 1 = ''1''"
  by code_simp

lemma collect_in_body_order: "in_body_order f js (collect f js)"
proof (induction js)
  case Nil
  show ?case by (simp add: in_body_order_def)
next
  case (Cons j js)
  show ?case
  proof (cases "f j")
    case (Inl ex)
    then show ?thesis by (auto simp: in_body_order_def)
  next
    case fj: (Inr y)
    show ?thesis
    proof (cases "collect f js")
      case (Inl ex)
      with fj Cons show ?thesis by (auto simp: in_body_order_def)
    next
      case (Inr ys)
      with fj Cons show ?thesis
        by (auto simp: in_body_order_def nth_Cons split: nat.splits)
    qed
  qed
qed

lemma comprehension_array:
  "json_body response = Some (JArray js) \<Longrightarrow>
     comprehension Model response = collect (construct Model) js"
  by (simp add: comprehension_def response_json_def iterate_def)

lemma checked_json:
  "json_body response = Some j \<Longrightarrow> checked (Inr response) = Inr response"
  by (simp add: checked_def)

lemma list_shape_maps_body:
  "maps_body e self w Model
     (case alloc d w of
        (params, w1) \<Rightarrow>
          (case call_api e self ep (Some params) w1 of
             (Inl ex, w2) \<Rightarrow> (Inl ex, w2)
           | (Inr response, w2) \<Rightarrow> (comprehension Model response, w2)))"
  unfolding maps_body_def
  by (auto simp: list_shape_calls list_shape_fst checked_json comprehension_array
                 collect_in_body_order)

lemma League_model_sample: "League_model sample_league_data = Inr sample_league"
  by (simp add: League_model_def sample_league_data_def sample_league_def bind_exn_def
                field_int_def field_str_def field_timestamp_def field_list_def)

lemma League_model_id:
  assumes "League_model kw = Inr L" and "map_of kw ''league_id'' = Some (JInt n)"
  shows "league_id L = n"
  using assms
  by (auto simp: League_model_def bind_exn_def field_int_def split: sum.splits)

lemma comprehension_sample:
  assumes "json_body response = Some (JArray [JObject sample_league_data])"
  shows "comprehension League_model response = Inr [sample_league]"
proof -
  have "collect (construct League_model) [JObject sample_league_data] = Inr [sample_league]"
    by (simp add: construct_def League_model_sample)
  with comprehension_array [OF assms, of League_model] show ?thesis
    by simp
qed

lemma single_shape_calls:
  "calls (snd (case call_api e self ep None w of
                 (Inl ex, w1) \<Rightarrow> (Inl ex, w1)
               | (Inr response, w1) \<Rightarrow> (f response, w1)))
     = calls w @ [api_request self ep None]"
  by (simp add: outcome_case_snd call_api_calls)

lemma single_shape_fst:
  "fst (case call_api e self ep None w of
          (Inl ex, w1) \<Rightarrow> (Inl ex, w1)
        | (Inr response, w1) \<Rightarrow> (f response, w1))
     = (case checked (fst (Client_send e (http_client self)
                             (api_request self ep None) (wire w))) of
          Inl ex \<Rightarrow> Inl ex
        | Inr response \<Rightarrow> f response)"
  by (simp add: outcome_case_fst call_api_fst)

lemma single_object:
  "json_body response = Some (JObject kw) \<Longrightarrow> single Model response = Model kw"
  by (simp add: single_def response_json_def construct_def)

lemma leagues_1: "LIST_LEAGUES_ENDPOINT @ str_int 1 = ''/v0/leagues/1''"
  by (simp add: LIST_LEAGUES_ENDPOINT_def str_int_1)

lemma list_of_two:
  assumes "length xs = 2"
  shows "xs = [xs ! 0, xs ! 1]"
proof -
  from assms obtain a b where "xs = [a, b]"
    by (auto simp: length_Suc_conv numeral_2_eq_2)
  then show ?thesis by simp
qed

section \<open>Listing leagues\<close>

text \<open>
  C5. \<^verbatim>\<open>list_leagues(skip=10, limit=50, league_name="Test")\<close> makes one call to the HTTP
  client: a GET of \<^verbatim>\<open>/v0/leagues/\<close> whose parameters are exactly \<^verbatim>\<open>skip\<close> 10,
  \<^verbatim>\<open>limit\<close> 50 and \<^verbatim>\<open>league_name\<close> \<^verbatim>\<open>Test\<close>, with no \<^verbatim>\<open>min_last_changed_date\<close>.
  When the client answers with a response whose JSON body is an array holding the league
  payload of the tests, the operation returns a sequence of one record, and the name of
  that record is \<^verbatim>\<open>Test League\<close>.
\<close>

theorem list_leagues_example:
  "calls (snd (list_leagues League_model e self
                 (Some (PInt 10)) (Some (PInt 50)) None (Some (PStr ''Test'')) w))
     = calls w @ [api_request self ''/v0/leagues/''
                    (Some [(''skip'', PInt 10), (''limit'', PInt 50),
                           (''league_name'', PStr ''Test'')])]
   \<and> (\<forall>response.
         fst (Client_send e (http_client self)
                (api_request self ''/v0/leagues/''
                    (Some [(''skip'', PInt 10), (''limit'', PInt 50),
                           (''league_name'', PStr ''Test'')]))
                (wire w)) = Inr response
         \<and> json_body response = Some (JArray [JObject sample_league_data])
         \<longrightarrow> (\<exists>L. fst (list_leagues League_model e self
                          (Some (PInt 10)) (Some (PInt 50)) None (Some (PStr ''Test'')) w)
                     = Inr [L]
                  \<and> league_name L = ''Test League''))"
  (is "?sent \<and> ?returned")
proof
  have s: "strip [(''skip'', PInt 10), (''limit'', PInt 50),
                  (''min_last_changed_date'', PNone), (''league_name'', PStr ''Test'')]
             = [(''skip'', PInt 10), (''limit'', PInt 50), (''league_name'', PStr ''Test'')]"
    by (simp add: strip_def)
  show ?sent
    unfolding list_leagues_def
    by (simp add: list_shape_calls arg_def s LIST_LEAGUES_ENDPOINT_def)
  have r: "fst (list_leagues League_model e self
                  (Some (PInt 10)) (Some (PInt 50)) None (Some (PStr ''Test'')) w)
             = (case checked (fst (Client_send e (http_client self)
                        (api_request self ''/v0/leagues/''
                           (Some [(''skip'', PInt 10), (''limit'', PInt 50),
                                  (''league_name'', PStr ''Test'')]))
                        (wire w))) of
                  Inl ex \<Rightarrow> Inl ex
                | Inr response \<Rightarrow> comprehension League_model response)"
    unfolding list_leagues_def
    by (simp add: list_shape_fst arg_def s LIST_LEAGUES_ENDPOINT_def)
  show ?returned
  proof (intro allI impI, elim conjE)
    fix response
    assume g: "fst (Client_send e (http_client self)
                (api_request self ''/v0/leagues/''
                    (Some [(''skip'', PInt 10), (''limit'', PInt 50),
                           (''league_name'', PStr ''Test'')]))
                (wire w)) = Inr response"
      and b: "json_body response = Some (JArray [JObject sample_league_data])"
    have "fst (list_leagues League_model e self
                  (Some (PInt 10)) (Some (PInt 50)) None (Some (PStr ''Test'')) w)
            = Inr [sample_league]"
      by (simp add: r g checked_json [OF b] comprehension_sample [OF b])
    moreover have "league_name sample_league = ''Test League''"
      by (simp add: sample_league_def)
    ultimately show "\<exists>L. fst (list_leagues League_model e self
                          (Some (PInt 10)) (Some (PInt 50)) None (Some (PStr ''Test'')) w)
                     = Inr [L]
                  \<and> league_name L = ''Test League''"
      by blast
  qed
qed

theorem list_leagues_example_witness:
  "fst (Client_send (env_json (''['' @ sample_league_body @ '']'') (JArray [JObject sample_league_data]))
         (http_client (SWCClient_init config0))
         (api_request (SWCClient_init config0) ''/v0/leagues/''
            (Some [(''skip'', PInt 10), (''limit'', PInt 50), (''league_name'', PStr ''Test'')]))
         (wire world0))
     = Inr \<lparr>status_code = 200, content = (''['' @ sample_league_body @ '']''),
            json_body = Some (JArray [JObject sample_league_data])\<rparr>
   \<and> (\<exists>L. fst (list_leagues League_model (env_json (''['' @ sample_league_body @ '']'') (JArray [JObject sample_league_data]))
                 (SWCClient_init config0)
                 (Some (PInt 10)) (Some (PInt 50)) None (Some (PStr ''Test'')) world0) = Inr [L]
          \<and> league_name L = ''Test League'')"
proof -
  have t: "client_transport (http_client (SWCClient_init config0)) = DefaultTransport"
    by (simp add: init_transport config0_def)
  have h: "fst (Client_send (env_json (''['' @ sample_league_body @ '']'') (JArray [JObject sample_league_data]))
         (http_client (SWCClient_init config0))
         (api_request (SWCClient_init config0) ''/v0/leagues/''
            (Some [(''skip'', PInt 10), (''limit'', PInt 50), (''league_name'', PStr ''Test'')]))
         (wire world0))
     = Inr \<lparr>status_code = 200, content = (''['' @ sample_league_body @ '']''),
            json_body = Some (JArray [JObject sample_league_data])\<rparr>"
    by (simp add: Client_send_default [OF t] env_json_def)
  from list_leagues_example [of "env_json (''['' @ sample_league_body @ '']'') (JArray [JObject sample_league_data])"
         "SWCClient_init config0" world0] h
  have "\<exists>L. fst (list_leagues League_model (env_json (''['' @ sample_league_body @ '']'') (JArray [JObject sample_league_data]))
                 (SWCClient_init config0)
                 (Some (PInt 10)) (Some (PInt 50)) None (Some (PStr ''Test'')) world0) = Inr [L]
          \<and> league_name L = ''Test League''"
    by simp
  with h show ?thesis by simp
qed

section \<open>A league by its id\<close>

text \<open>
  C6. For every league id \<open>i\<close>, \<open>get_league_by_id\<close> makes one call to the HTTP
  client: a GET of \<^verbatim>\<open>/v0/leagues/\<close> followed by the decimal text of \<open>i\<close>, which has no
  slash in it and so is the last segment of the path, with no query parameters. When
  the client answers with a response whose JSON body is an object, the result is what
  the model class builds from that object. In particular the call for id 1 asks for
  \<^verbatim>\<open>/v0/leagues/1\<close>, and when the object has \<^verbatim>\<open>league_id\<close> 1 and is a valid league, the
  record returned has id 1.
\<close>

theorem get_league_by_id_request:
  "calls (snd (get_league_by_id League e self i w))
     = calls w @ [api_request self (''/v0/leagues/'' @ str_int i) None]
   \<and> CHR ''/'' \<notin> set (str_int i)
   \<and> (\<forall>response kw.
         fst (Client_send e (http_client self)
                (api_request self (''/v0/leagues/'' @ str_int i) None) (wire w)) = Inr response
         \<and> json_body response = Some (JObject kw)
         \<longrightarrow> fst (get_league_by_id League e self i w) = League kw)
   \<and> calls (snd (get_league_by_id League_model e self 1 w))
       = calls w @ [api_request self ''/v0/leagues/1'' None]
   \<and> (\<forall>response kw L.
         fst (Client_send e (http_client self)
                (api_request self ''/v0/leagues/1'' None) (wire w)) = Inr response
         \<and> json_body response = Some (JObject kw)
         \<and> map_of kw ''league_id'' = Some (JInt 1)
         \<and> League_model kw = Inr L
         \<longrightarrow> fst (get_league_by_id League_model e self 1 w) = Inr L \<and> league_id L = 1)"
  (is "?sent \<and> ?segment \<and> ?returned \<and> ?sent1 \<and> ?returned1")
proof (intro conjI)
  have ep: "LIST_LEAGUES_ENDPOINT @ str_int j = ''/v0/leagues/'' @ str_int j" for j
    by (simp add: LIST_LEAGUES_ENDPOINT_def)
  show ?sent
    unfolding get_league_by_id_def by (simp only: single_shape_calls ep)
  show ?segment
    by (rule str_int_no_slash)
  have r: "fst (get_league_by_id M e self j w)
             = (case checked (fst (Client_send e (http_client self)
                        (api_request self (''/v0/leagues/'' @ str_int j) None) (wire w))) of
                  Inl ex \<Rightarrow> Inl ex
                | Inr response \<Rightarrow> single M response)" for M :: "kwargs \<Rightarrow> exn + 'b" and j
    unfolding get_league_by_id_def by (simp only: single_shape_fst ep)
  show ?returned
    by (auto simp: r checked_json single_object)
  have one: "''/v0/leagues/'' @ str_int 1 = ''/v0/leagues/1''"
    by (simp add: str_int_1)
  show ?sent1
    unfolding get_league_by_id_def by (simp only: single_shape_calls ep one)
  show ?returned1
    using r [of League_model 1] unfolding one
    by (auto simp: checked_json single_object League_model_id)
qed

theorem get_league_by_id_request_witness:
  "fst (Client_send (env_json sample_league_body (JObject sample_league_data))
         (http_client (SWCClient_init config0))
         (api_request (SWCClient_init config0) ''/v0/leagues/1'' None) (wire world0))
     = Inr \<lparr>status_code = 200, content = sample_league_body,
            json_body = Some (JObject sample_league_data)\<rparr>
   \<and> map_of sample_league_data ''league_id'' = Some (JInt 1)
   \<and> League_model sample_league_data = Inr sample_league
   \<and> fst (get_league_by_id League_model (env_json sample_league_body (JObject sample_league_data))
           (SWCClient_init config0) 1 world0) = Inr sample_league
   \<and> league_id sample_league = 1"
proof -
  let ?e = "env_json sample_league_body (JObject sample_league_data)"
  have t: "client_transport (http_client (SWCClient_init config0)) = DefaultTransport"
    by (simp add: init_transport config0_def)
  have h: "fst (Client_send ?e (http_client (SWCClient_init config0))
         (api_request (SWCClient_init config0) ''/v0/leagues/1'' None) (wire world0))
     = Inr \<lparr>status_code = 200, content = sample_league_body,
            json_body = Some (JObject sample_league_data)\<rparr>"
    by (simp add: Client_send_default [OF t] env_json_def)
  have m: "map_of sample_league_data ''league_id'' = Some (JInt 1)"
    by (simp add: sample_league_data_def)
  from get_league_by_id_request [of League_model ?e "SWCClient_init config0" 1 world0]
  have "\<forall>response kw L.
         fst (Client_send ?e (http_client (SWCClient_init config0))
                (api_request (SWCClient_init config0) ''/v0/leagues/1'' None) (wire world0))
           = Inr response
         \<and> json_body response = Some (JObject kw)
         \<and> map_of kw ''league_id'' = Some (JInt 1)
         \<and> League_model kw = Inr L
         \<longrightarrow> fst (get_league_by_id League_model ?e (SWCClient_init config0) 1 world0) = Inr L
             \<and> league_id L = 1"
    by blast
  with h m League_model_sample
  have "fst (get_league_by_id League_model ?e (SWCClient_init config0) 1 world0) = Inr sample_league
        \<and> league_id sample_league = 1"
    by simp
  with h m League_model_sample show ?thesis by simp
qed

section \<open>Pagination defaults and the order of results\<close>

text \<open>
  C7. When the caller leaves out \<^verbatim>\<open>skip\<close> and \<^verbatim>\<open>limit\<close>, each of the four list
  operations assembles a parameter mapping in which \<^verbatim>\<open>skip\<close> is 0 and \<^verbatim>\<open>limit\<close> is
  100, whatever the other arguments are, and both reach the GET that is issued.
\<close>

theorem list_operations_default_pagination:
  "default_pagination w (list_leagues League e self None None date name1 w)
   \<and> default_pagination w (list_teams Team e self None None date name1 name2 w)
   \<and> default_pagination w (list_players Player e self None None date name1 name2 w)
   \<and> default_pagination w (list_performances Performance e self None None date w)"
  unfolding default_pagination_def list_leagues_def list_teams_def list_players_def
    list_performances_def
  by (simp add: list_shape_calls list_shape_heap arg_def strip_def api_request_def)

theorem list_operations_default_pagination_witness:
  "map_of (heap (snd (list_performances Inr env0 (SWCClient_init config0)
                        None None None world0)) ! 0) ''skip'' = Some (PInt 0)
   \<and> map_of (heap (snd (list_performances Inr env0 (SWCClient_init config0)
                        None None None world0)) ! 0) ''limit'' = Some (PInt 100)
   \<and> calls (snd (list_performances Inr env0 (SWCClient_init config0) None None None world0))
       = [api_request (SWCClient_init config0) ''/v0/performances/''
            (Some [(''skip'', PInt 0), (''limit'', PInt 100)])]"
proof -
  let ?R = "list_performances Inr env0 (SWCClient_init config0) None None None world0"
  have c: "calls (snd ?R)
     = [api_request (SWCClient_init config0) ''/v0/performances/''
          (Some [(''skip'', PInt 0), (''limit'', PInt 100)])]"
    unfolding list_performances_def
    by (simp add: list_shape_calls arg_def strip_def LIST_PERFORMANCES_ENDPOINT_def world0_def)
  have "default_pagination world0 ?R"
    using list_operations_default_pagination [of world0 Inr env0 "SWCClient_init config0"]
    by blast
  then have "map_of (heap (snd ?R) ! 0) ''skip'' = Some (PInt 0)"
    and "map_of (heap (snd ?R) ! 0) ''limit'' = Some (PInt 100)"
    unfolding default_pagination_def by (simp_all add: world0_def)
  with c show ?thesis by simp
qed

text \<open>
  C9. For each of the four list operations: when the response has a JSON array of
  length \<open>n\<close> as its body, a returned sequence has length \<open>n\<close> and its \<open>i\<close>-th element
  is the record the model class builds from the \<open>i\<close>-th element of the array, so the
  order of the body is kept; and the operation does return a sequence when every element
  of the array can be built.
\<close>

theorem list_operations_keep_order:
  "maps_body e self w League (list_leagues League e self skip limit date name1 w)
   \<and> maps_body e self w Team (list_teams Team e self skip limit date name1 name2 w)
   \<and> maps_body e self w Player (list_players Player e self skip limit date name1 name2 w)
   \<and> maps_body e self w Performance (list_performances Performance e self skip limit date w)"
  unfolding list_leagues_def list_teams_def list_players_def list_performances_def
  by (intro conjI list_shape_maps_body)

theorem list_operations_keep_order_witness:
  "fst (Client_send (env_json two_leagues_body (JArray two_leagues))
         (http_client (SWCClient_init config0))
         (last (calls (snd (list_leagues Inr (env_json two_leagues_body (JArray two_leagues))
                              (SWCClient_init config0) None None None None world0))))
         (wire world0))
     = Inr \<lparr>status_code = 200, content = two_leagues_body,
            json_body = Some (JArray two_leagues)\<rparr>
   \<and> fst (list_leagues Inr (env_json two_leagues_body (JArray two_leagues))
           (SWCClient_init config0) None None None None world0)
       = Inr [[(''league_id'', JInt 1), (''league_name'', JString ''A'')],
              [(''league_id'', JInt 2), (''league_name'', JString ''B'')]]"
proof -
  let ?e = "env_json two_leagues_body (JArray two_leagues)"
  let ?R = "list_leagues Inr ?e (SWCClient_init config0) None None None None world0"
  let ?resp = "\<lparr>status_code = 200, content = two_leagues_body,
                 json_body = Some (JArray two_leagues)\<rparr>"
  have t: "client_transport (http_client (SWCClient_init config0)) = DefaultTransport"
    by (simp add: init_transport config0_def)
  have h: "fst (Client_send ?e (http_client (SWCClient_init config0))
                  (last (calls (snd ?R))) (wire world0)) = Inr ?resp"
    by (simp add: Client_send_default [OF t] env_json_def)
  have "maps_body ?e (SWCClient_init config0) world0 Inr ?R"
    using list_operations_keep_order [of ?e "SWCClient_init config0" world0 Inr]
    by blast
  with h have o: "in_body_order (construct Inr) two_leagues (fst ?R)"
    unfolding maps_body_def by simp
  have "\<forall>j\<in>set two_leagues. \<exists>x. construct Inr j = (Inr x :: exn + kwargs)"
    by (simp add: two_leagues_def construct_def)
  with o obtain xs where xs: "fst ?R = Inr xs"
    unfolding in_body_order_def by blast
  with o have l: "length xs = 2"
    and e: "\<forall>i<2. construct Inr (two_leagues ! i) = (Inr (xs ! i) :: exn + kwargs)"
    unfolding in_body_order_def by (simp_all add: two_leagues_def)
  from e have "construct Inr (two_leagues ! 0) = (Inr (xs ! 0) :: exn + kwargs)"
    and "construct Inr (two_leagues ! 1) = (Inr (xs ! 1) :: exn + kwargs)"
    by simp_all
  then have "xs ! 0 = [(''league_id'', JInt 1), (''league_name'', JString ''A'')]"
    and "xs ! 1 = [(''league_id'', JInt 2), (''league_name'', JString ''B'')]"
    by (simp_all add: two_leagues_def construct_def)
  with list_of_two [OF l]
  have "xs = [[(''league_id'', JInt 1), (''league_name'', JString ''A'')],
              [(''league_id'', JInt 2), (''league_name'', JString ''B'')]]"
    by simp
  with xs h show ?thesis by simp
qed


end
